theory Spec2Isabelle
  imports Complex_Main "HOL-Library.Sublist"
begin

section \<open>CampusQuery: the browser-side controller \<open>CampusQueryApp\<close>\<close>

text \<open>
  The class \<open>CampusQueryApp\<close> is embedded as a record of its fields together with the part
  of the browser it reads and writes: the elements it looks up in the document, the toast
  nodes and source cards it appends, the requests it sends with \<open>fetch\<close>, the calls it makes
  into the PDF library and the window's text selection. Every method is a function on that
  record. An \<open>async\<close> method is one function per stretch of code between two \<open>await\<close>s: the
  first runs when the method is called, the later ones when the awaited promise settles.
\<close>

subsection \<open>Strings and numbers\<close>

text \<open>
  A JavaScript string is a sequence of UTF-16 code units, and \<open>length\<close> counts code units.
  \<open>js\<close> embeds an ASCII literal. JavaScript numbers are doubles; they are modelled by
  rationals with exact arithmetic. The zoom scale only takes values that are multiples of
  \<open>0.25\<close> between \<open>0.5\<close> and \<open>3\<close>, on which double arithmetic is exact.
\<close>

type_synonym js_string = "nat list"

definition js :: "string \<Rightarrow> js_string" where
  "js s = map of_char s"

text \<open>\<open>String(n)\<close> for a non-negative integer, and for an integer.\<close>

fun show_nat :: "nat \<Rightarrow> js_string" where
  "show_nat n = (if n < 10 then [48 + n] else show_nat (n div 10) @ [48 + n mod 10])"

definition show_int :: "int \<Rightarrow> js_string" where
  "show_int i = (if i < 0 then 45 # show_nat (nat (- i)) else show_nat (nat i))"

text \<open>
  \<open>Math.round\<close>: the nearest integer, a tie going up. Where the code rounds a product of
  doubles, such as \<open>s.relevance * 100\<close>, the product is itself rounded to a double first;
  the model multiplies exactly, so the two can differ by one where the exact product is
  next to a tie (0.285 gives 28 in the code and 29 here). On the zoom scale there is no
  difference.
\<close>

definition Math_round :: "rat \<Rightarrow> int" where
  "Math_round x = \<lfloor>x + 1 / 2\<rfloor>"

text \<open>
  \<open>String.prototype.trim\<close> removes white space and line terminators from both ends.
\<close>

definition is_space :: "nat \<Rightarrow> bool" where
  "is_space c \<longleftrightarrow>
     c \<in> {0x09, 0x0A, 0x0B, 0x0C, 0x0D, 0x20, 0xA0, 0x1680, 0x2028, 0x2029, 0x202F,
          0x205F, 0x3000, 0xFEFF} \<or> (0x2000 \<le> c \<and> c \<le> 0x200A)"

definition trim :: "js_string \<Rightarrow> js_string" where
  "trim s = rev (dropWhile is_space (rev (dropWhile is_space s)))"

text \<open>\<open>hay.includes(needle)\<close>: \<open>needle\<close> occurs in \<open>hay\<close> as a contiguous run.\<close>

fun str_includes :: "js_string \<Rightarrow> js_string \<Rightarrow> bool" where
  "str_includes [] needle = (needle = [])"
| "str_includes (x # xs) needle = (prefix needle (x # xs) \<or> str_includes xs needle)"

text \<open>
  The characters outside ASCII in the code's literals, as the code units that the source
  file holds. (The file's text is that of a book, a cycle, a globe and a page icon and of
  an ellipsis, with their UTF-8 bytes read in another character set; the names say which
  icon is meant.)
\<close>

definition emoji_book :: js_string where "emoji_book = [0xF8FF, 0xFC, 0xEC, 0xF1]"
definition emoji_cycle :: js_string where "emoji_cycle = [0xF8FF, 0xFC, 0xEE, 0xD1]"
definition emoji_globe :: js_string where "emoji_globe = [0xF8FF, 0xFC, 0xE5, 0xEA]"
definition emoji_page :: js_string where "emoji_page = [0xF8FF, 0xFC, 0xEC, 0xD1]"
definition ellipsis :: js_string where "ellipsis = [0x201A, 0xC4, 0xB6]"

subsection \<open>Data received from the backend and from the PDF library\<close>

text \<open>One entry of \<open>sources[]\<close> in the \<open>/api/query\<close> response.\<close>

record source =
  filename :: js_string
  content_preview :: js_string
  content_snippet :: "js_string option"
  relevance :: rat
  is_web_result :: bool

text \<open>
  The JSON body of the \<open>/api/query\<close> response. A field that is absent (or \<open>null\<close>) is
  \<open>None\<close>.
\<close>

record query_data =
  answer :: "js_string option"
  detailed_answer :: "js_string option"
  sources :: "source list option"
  justification :: "js_string option"
  error :: "js_string option"

text \<open>The document handle that \<open>pdfjsLib.getDocument\<close> resolves to.\<close>

record pdf_document =
  numPages :: int

datatype js_error = TypeError | Error js_string

text \<open>
  \<open>err.message\<close>. The text of a \<open>TypeError\<close> raised by the engine depends on the browser;
  a fixed text stands for it.
\<close>

fun message :: "js_error \<Rightarrow> js_string" where
  "message TypeError = js ''Cannot read properties of null''"
| "message (Error m) = m"

subsection \<open>The document\<close>

datatype elem_id =
    Toasts | QueryInput | AskButton | LoadingOverlay | LoadingText
  | ResultsSection | AnswerContent | DocumentsContainer | DocsCard
  | DetailCard | DetailToggle | DetailContent
  | SnippetModal | ModalClose | ModalTitle | ModalSubtitle | ModalMessage
  | OpenInTabBtn | DownloadPDFBtn | PrevPageBtn | PageInfoDisplay | NextPageBtn
  | ZoomOutBtn | ZoomLevelDisplay | ZoomInBtn | PdfDisplayContainer | LoadingMessage
  | TextSelectionDisplay | SelectedTextBox | GenerateQuestionBtn | ClearSelectionBtn

text \<open>
  What the code reads and writes of an element: membership of the class \<open>hidden\<close>, its
  text (\<open>innerHTML\<close>, \<open>textContent\<close> or \<open>value\<close>, whichever the code uses on that element),
  \<open>style.display\<close> and \<open>disabled\<close>.
\<close>

record elem =
  hidden :: bool
  innerHTML :: js_string
  display :: js_string
  disabled :: bool

datatype toast_type = Success | ErrorT | Warn | Info

datatype card_action = OpenAccuratePDFViewer source | ShowWebResult source

text \<open>
  A source card, the \<open>div.doc-card\<close> that \<open>displayResults\<close> builds: the values that fill
  its HTML template, its attributes and its click handler.
\<close>

record doc_card =
  card_data_web :: bool
  card_icon :: js_string
  card_name :: js_string
  card_preview :: js_string
  card_badge_class :: js_string
  card_relevancePercent :: int
  card_type :: js_string
  card_highlight_badge :: bool
  card_title :: js_string
  card_onclick :: card_action

text \<open>A call of \<open>fetch\<close>: the address, the method and the \<open>query\<close> field of the JSON body.\<close>

record request =
  url :: js_string
  http_method :: js_string
  body_query :: js_string

subsection \<open>The controller's state\<close>

record app =
  currentQuery :: js_string
  currentResult :: "query_data option"
  detailVisible :: bool
  selectedText :: js_string
  currentPdfUrl :: js_string
  currentDocumentName :: js_string
  pdfDoc :: "pdf_document option"
  pageNum :: int
  scale :: rat
  pageRendering :: bool
  pageNumPending :: "int option"
  document :: "elem_id \<Rightarrow> elem option"
  cards :: "doc_card list"
  toasts :: "(js_string \<times> toast_type) list"
  requests :: "request list"
  getPageCalls :: "int list"
  windowSelection :: js_string

text \<open>
  \<open>document s i\<close> is \<open>None\<close> where \<open>querySelector\<close> returns \<open>null\<close>. \<open>cards\<close> are the
  children of \<open>#documentsContainer\<close>, \<open>toasts\<close> the nodes appended to \<open>#toasts\<close> (oldest
  first; their timed removal is not modelled), \<open>requests\<close> the calls of \<open>fetch\<close>,
  \<open>getPageCalls\<close> the calls of \<open>pdfDoc.getPage\<close>, each of which starts the rendering of
  a page, and \<open>windowSelection\<close> is \<open>window.getSelection().toString()\<close>.

  \<open>constructor\<close> is the constructor's assignments to the fields (lines 3 to 16), on a
  given document. (\<open>systemStatus\<close> belongs to the status poller and is left out.) Its
  last statement, the call of \<open>init\<close>, is \<open>init\<close> below.
\<close>

definition constructor :: "(elem_id \<Rightarrow> elem option) \<Rightarrow> app" where
  "constructor doc =
     \<lparr> currentQuery = [], currentResult = None, detailVisible = False, selectedText = [],
       currentPdfUrl = [], currentDocumentName = [], pdfDoc = None, pageNum = 1, scale = 1,
       pageRendering = False, pageNumPending = None, document = doc, cards = [],
       toasts = [], requests = [], getPageCalls = [], windowSelection = [] \<rparr>"

text \<open>
  \<open>if (el) el.\<dots> = \<dots>\<close>: an update of an element that is skipped when the element is
  missing.
\<close>

definition upd_elem :: "elem_id \<Rightarrow> (elem \<Rightarrow> elem) \<Rightarrow> app \<Rightarrow> app" where
  "upd_elem i f s =
     (case document s i of
        None \<Rightarrow> s
      | Some e \<Rightarrow> s\<lparr>document := (document s)(i \<mapsto> f e)\<rparr>)"

definition present :: "app \<Rightarrow> elem_id \<Rightarrow> bool" where
  "present s i = (document s i \<noteq> None)"

subsection \<open>Notifications and the loading overlay\<close>

definition toast :: "js_string \<Rightarrow> toast_type \<Rightarrow> app \<Rightarrow> app" where
  "toast msg ty s =
     (if \<not> present s Toasts then s else s\<lparr>toasts := toasts s @ [(msg, ty)]\<rparr>)"

definition showAlert :: "js_string \<Rightarrow> toast_type \<Rightarrow> app \<Rightarrow> app" where
  "showAlert msg ty s = toast msg ty s"

definition showLoading :: "js_string \<Rightarrow> app \<Rightarrow> app" where
  "showLoading msg s =
     upd_elem LoadingOverlay (\<lambda>e. e\<lparr>hidden := False\<rparr>)
       (upd_elem LoadingText (\<lambda>e. e\<lparr>innerHTML := msg\<rparr>) s)"

definition hideLoading :: "app \<Rightarrow> app" where
  "hideLoading s = upd_elem LoadingOverlay (\<lambda>e. e\<lparr>hidden := True\<rparr>) s"

text \<open>
  \<open>init\<close>: it installs the listeners, which are the functions of the sections below,
  starts the status poller with a request to \<open>/api/status\<close>, and shows the welcome
  notification. (The poller's later requests and its updates of the status indicator are
  not modelled.)
\<close>

definition init :: "app \<Rightarrow> app" where
  "init s =
     toast (js ''Welcome to Enhanced CampusQuery with Accurate Highlighting!'') Success
       (s\<lparr>requests := requests s @
            [\<lparr>url = js ''/api/status'', http_method = js ''GET'', body_query = []\<rparr>]\<rparr>)"

subsection \<open>Results and the detail panel\<close>

text \<open>
  \<open>formatText\<close> (four regular-expression replacements that turn the answer's light markup
  into HTML) is a parameter \<open>formatText\<close> of the functions that call it: it only decides
  the text written into \<open>#answerContent\<close> and \<open>#detailContent\<close>.
\<close>

definition detailsLabel :: js_string where
  "detailsLabel = js ''<span>'' @ emoji_book @ js ''</span> Details''"

definition hideDetailsLabel :: js_string where
  "hideDetailsLabel = js ''<span>'' @ emoji_book @ js ''</span> Hide Details''"

definition hideResults :: "app \<Rightarrow> app" where
  "hideResults s =
     (let s1 = upd_elem ResultsSection (\<lambda>e. e\<lparr>hidden := True\<rparr>) s;
          s2 = upd_elem DetailCard (\<lambda>e. e\<lparr>hidden := True\<rparr>) s1;
          s3 = upd_elem DocsCard (\<lambda>e. e\<lparr>hidden := True\<rparr>) s2;
          s4 = s3\<lparr>detailVisible := False\<rparr>
      in upd_elem DetailToggle (\<lambda>e. e\<lparr>innerHTML := detailsLabel\<rparr>) s4)"

text \<open>
  \<open>toggleDetailedExplanation\<close>. (The delayed \<open>scrollIntoView\<close> changes nothing that is
  modelled.)
\<close>

definition toggleDetailedExplanation :: "(js_string \<Rightarrow> js_string) \<Rightarrow> app \<Rightarrow> app" where
  "toggleDetailedExplanation formatText s =
     (case currentResult s of
        None \<Rightarrow> s
      | Some res \<Rightarrow>
          if \<not> present s DetailCard \<or> \<not> present s DetailToggle then s
          else if detailVisible s then
            (let s1 = upd_elem DetailCard (\<lambda>e. e\<lparr>hidden := True\<rparr>) s;
                 s2 = upd_elem DetailToggle (\<lambda>e. e\<lparr>innerHTML := detailsLabel\<rparr>) s1
             in s2\<lparr>detailVisible := False\<rparr>)
          else
            (let s1 = upd_elem DetailCard (\<lambda>e. e\<lparr>hidden := False\<rparr>) s;
                 s2 = upd_elem DetailContent
                        (\<lambda>e. e\<lparr>innerHTML :=
                           formatText (case detailed_answer res of None \<Rightarrow> [] | Some d \<Rightarrow> d)\<rparr>) s1;
                 s3 = upd_elem DetailToggle (\<lambda>e. e\<lparr>innerHTML := hideDetailsLabel\<rparr>) s2
             in s3\<lparr>detailVisible := True\<rparr>))"

definition webSearchMarker :: js_string where
  "webSearchMarker = emoji_globe @ js '' **Information from Web Search:**''"

definition webIndicator :: js_string where
  "webIndicator =
     js ''<div class=\"answer-source-indicator\">'' @ emoji_globe @ js '' Web Search Result</div>''"

definition documentIndicator :: js_string where
  "documentIndicator =
     js ''<div class=\"answer-source-indicator\">'' @ emoji_page
       @ js '' Document-based Answer</div>''"

text \<open>The body of the \<open>forEach\<close> in \<open>displayResults\<close>: the card built for one source.\<close>

definition make_card :: "source \<Rightarrow> doc_card" where
  "make_card src =
     \<lparr> card_data_web = is_web_result src,
       card_icon = (if is_web_result src then emoji_globe else emoji_page),
       card_name = filename src,
       card_preview = content_preview src,
       card_badge_class = (if is_web_result src then js ''web-result'' else js ''document-result''),
       card_relevancePercent = Math_round (relevance src * 100),
       card_type = (if is_web_result src then js ''Web Result'' else js ''PDF Document''),
       card_highlight_badge = (\<not> is_web_result src),
       card_title =
         (if \<not> is_web_result src then js ''Click to open PDF with accurate text highlighting''
          else js ''Click to view web result''),
       card_onclick =
         (if \<not> is_web_result src then OpenAccuratePDFViewer src else ShowWebResult src) \<rparr>"

definition appendCard :: "app \<Rightarrow> source \<Rightarrow> app" where
  "appendCard s src = s\<lparr>cards := cards s @ [make_card src]\<rparr>"

text \<open>
  \<open>displayResults\<close>, in its two parts: \<open>displayAnswer\<close> fills \<open>#answerContent\<close> (lines
  521 to 534) and \<open>displaySources\<close> rebuilds the source cards (lines 536 to 578).
  \<open>data.answer.includes(\<dots>)\<close> throws a \<open>TypeError\<close> when the response has no \<open>answer\<close>;
  the error leaves the method with the state as it is at that line.
\<close>

definition displayAnswer :: "(js_string \<Rightarrow> js_string) \<Rightarrow> query_data \<Rightarrow> app \<Rightarrow> (js_error \<times> app) + app" where
  "displayAnswer formatText data s =
     (if \<not> present s AnswerContent then Inr s
      else
        (let shown = (case answer data of
                        None \<Rightarrow> js ''No answer available.''
                      | Some a \<Rightarrow> if a = [] then js ''No answer available.'' else a);
             s1 = upd_elem AnswerContent (\<lambda>e. e\<lparr>innerHTML := formatText shown\<rparr>) s
         in case answer data of
              None \<Rightarrow> Inl (TypeError, s1)
            | Some a \<Rightarrow>
                if str_includes a webSearchMarker then
                  Inr (upd_elem AnswerContent (\<lambda>e. e\<lparr>innerHTML := webIndicator @ innerHTML e\<rparr>) s1)
                else if (case sources data of None \<Rightarrow> False | Some srcs \<Rightarrow> length srcs > 0) then
                  Inr (upd_elem AnswerContent
                         (\<lambda>e. e\<lparr>innerHTML := documentIndicator @ innerHTML e\<rparr>) s1)
                else Inr s1))"

definition displaySources :: "query_data \<Rightarrow> app \<Rightarrow> app" where
  "displaySources data s =
     (let s1 = (if present s DocumentsContainer then s\<lparr>cards := []\<rparr> else s)
      in case sources data of
           None \<Rightarrow> s1
         | Some srcs \<Rightarrow>
             if srcs \<noteq> [] \<and> present s1 DocumentsContainer \<and> present s1 DocsCard then
               foldl appendCard (upd_elem DocsCard (\<lambda>e. e\<lparr>hidden := False\<rparr>) s1) srcs
             else s1)"

definition displayResults :: "(js_string \<Rightarrow> js_string) \<Rightarrow> query_data \<Rightarrow> app \<Rightarrow> (js_error \<times> app) + app" where
  "displayResults formatText data s =
     (case displayAnswer formatText data (upd_elem ResultsSection (\<lambda>e. e\<lparr>hidden := False\<rparr>) s) of
        Inl thrown \<Rightarrow> Inl thrown
      | Inr s1 \<Rightarrow> Inr (displaySources data s1))"

subsection \<open>Submitting a query\<close>

definition processingLabel :: js_string where
  "processingLabel = js ''<span>'' @ emoji_cycle @ js ''</span> Processing'' @ ellipsis"

text \<open>
  \<open>processQuery\<close> up to its \<open>await fetch(\<dots>)\<close>: the validation of the question and the
  sending of the request. \<open>question\<close> is its local \<open>q\<close>, the trimmed value of the input
  field, empty when there is no field.
\<close>

definition question :: "app \<Rightarrow> js_string" where
  "question s = (case document s QueryInput of None \<Rightarrow> [] | Some i \<Rightarrow> trim (innerHTML i))"

definition processQuery :: "app \<Rightarrow> app" where
  "processQuery s =
     (let q = question s
      in if q = [] then showAlert (js ''Please enter a question.'') Warn s
         else
           (let s1 = showLoading (js ''Processing your query'' @ ellipsis) (s\<lparr>currentQuery := q\<rparr>);
                s2 = upd_elem AskButton (\<lambda>e. e\<lparr>disabled := True, innerHTML := processingLabel\<rparr>) s1
            in s2\<lparr>requests := requests s2 @
                  [\<lparr>url = js ''/api/query'', http_method = js ''POST'', body_query = q\<rparr>]\<rparr>))"

text \<open>The local \<open>originalText\<close> of \<open>processQuery\<close>, read before the button is relabelled.\<close>

definition originalText :: "app \<Rightarrow> js_string" where
  "originalText s = (case document s AskButton of None \<Rightarrow> [] | Some e \<Rightarrow> innerHTML e)"

text \<open>
  How the awaited \<open>fetch\<close> and \<open>res.json()\<close> end: either of them rejects, or there is a
  response with its \<open>ok\<close> flag and its parsed body.
\<close>

datatype fetch_outcome = Rejected js_error | Response bool query_data

text \<open>
  The rest of \<open>processQuery\<close>, after the \<open>await\<close>s: the \<open>try\<close> body, the \<open>catch\<close> and the
  \<open>finally\<close>. \<open>orig\<close> is the local \<open>originalText\<close> and \<open>processingTime\<close> the elapsed
  seconds as printed by \<open>toFixed(1)\<close>.
\<close>

definition processQuery_try :: "(js_string \<Rightarrow> js_string) \<Rightarrow> js_string \<Rightarrow> fetch_outcome \<Rightarrow> app \<Rightarrow> (js_error \<times> app) + app" where
  "processQuery_try formatText processingTime outcome s =
     (case outcome of
        Rejected e \<Rightarrow> Inl (e, s)
      | Response ok data \<Rightarrow>
          if \<not> ok then
            Inl (Error (case error data of
                          None \<Rightarrow> js ''Query failed''
                        | Some m \<Rightarrow> if m = [] then js ''Query failed'' else m), s)
          else
            (case displayResults formatText data (s\<lparr>currentResult := Some data\<rparr>) of
               Inl thrown \<Rightarrow> Inl thrown
             | Inr s1 \<Rightarrow>
                 (case answer data of
                    None \<Rightarrow> Inl (TypeError, s1)
                  | Some a \<Rightarrow>
                      if str_includes a webSearchMarker then
                        Inr (toast (js ''Web search completed in '' @ processingTime @ js ''s'') Info s1)
                      else
                        Inr (toast (js ''Document search completed in '' @ processingTime @ js ''s'')
                               Success s1))))"

definition processQuery_settled :: "(js_string \<Rightarrow> js_string) \<Rightarrow> js_string \<Rightarrow> js_string \<Rightarrow> fetch_outcome \<Rightarrow> app \<Rightarrow> app" where
  "processQuery_settled formatText orig processingTime outcome s =
     (let s1 = (case processQuery_try formatText processingTime outcome s of
                  Inl (err, s') \<Rightarrow> showAlert (js ''Error: '' @ message err) ErrorT s'
                | Inr s' \<Rightarrow> s')
      in upd_elem AskButton (\<lambda>e. e\<lparr>disabled := False, innerHTML := orig\<rparr>) (hideLoading s1))"

subsection \<open>The document viewer modal\<close>

definition cleanupModal :: "app \<Rightarrow> app" where
  "cleanupModal s =
     s\<lparr>selectedText := [], pdfDoc := None, currentPdfUrl := [], currentDocumentName := []\<rparr>"

text \<open>
  The three listeners that \<open>bindModal\<close> installs; \<open>closeModal\<close> is what each of them does
  when it closes the modal. A listener that was not installed, because its element is
  missing, does nothing. \<open>bindModal\<close> looks the elements up once;
  the model looks them up when the listener runs, which is the same as long as the page
  keeps its static elements.
\<close>

definition closeModal :: "app \<Rightarrow> app" where
  "closeModal s = cleanupModal (upd_elem SnippetModal (\<lambda>e. e\<lparr>hidden := True\<rparr>) s)"

definition modalClose_click :: "app \<Rightarrow> app" where
  "modalClose_click s =
     (if present s ModalClose \<and> present s SnippetModal then closeModal s else s)"

definition window_keydown :: "js_string \<Rightarrow> app \<Rightarrow> app" where
  "window_keydown key s =
     (case document s SnippetModal of
        None \<Rightarrow> s
      | Some modal \<Rightarrow> if key = js ''Escape'' \<and> \<not> hidden modal then closeModal s else s)"

definition modal_click :: "elem_id \<Rightarrow> app \<Rightarrow> app" where
  "modal_click target s =
     (if present s SnippetModal then (if target = SnippetModal then closeModal s else s) else s)"

text \<open>The three ways of closing the viewer, as events.\<close>

datatype close_action = CloseButton | EscapeKey | BackdropClick

fun close_step :: "app \<Rightarrow> close_action \<Rightarrow> app" where
  "close_step s CloseButton = modalClose_click s"
| "close_step s EscapeKey = window_keydown (js ''Escape'') s"
| "close_step s BackdropClick = modal_click SnippetModal s"

text \<open>
  The elements that \<open>openAccuratePDFViewer\<close> creates by assigning its template to
  \<open>message.innerHTML\<close>: the page and zoom indicators with the text the template gives
  them, the selection display with its \<open>display: none\<close>; the labels of the buttons are
  left out.
\<close>

definition new_elem :: "js_string \<Rightarrow> js_string \<Rightarrow> elem" where
  "new_elem txt disp = \<lparr>hidden = False, innerHTML = txt, display = disp, disabled = False\<rparr>"

definition viewer_template :: "(elem_id \<times> elem) list" where
  "viewer_template =
     [(OpenInTabBtn, new_elem [] []), (DownloadPDFBtn, new_elem [] []),
      (PrevPageBtn, new_elem [] []), (PageInfoDisplay, new_elem (js ''Page 1 of 1'') []),
      (NextPageBtn, new_elem [] []), (ZoomOutBtn, new_elem [] []),
      (ZoomLevelDisplay, new_elem (js ''100%'') []), (ZoomInBtn, new_elem [] []),
      (PdfDisplayContainer, new_elem [] []), (LoadingMessage, new_elem [] []),
      (TextSelectionDisplay, new_elem [] (js ''none'')), (SelectedTextBox, new_elem [] []),
      (GenerateQuestionBtn, new_elem [] []), (ClearSelectionBtn, new_elem [] [])]"

definition openAccuratePDFViewer :: "source \<Rightarrow> app \<Rightarrow> app" where
  "openAccuratePDFViewer src s =
     (if \<not> present s SnippetModal \<or> \<not> present s ModalTitle \<or> \<not> present s ModalSubtitle
         \<or> \<not> present s ModalMessage
      then showAlert (js ''Modal elements not found'') ErrorT s
      else
        (let s1 = upd_elem ModalTitle
                    (\<lambda>e. e\<lparr>innerHTML := emoji_page @ js '' '' @ filename src @ js '' - PDF Highlighter''\<rparr>) s;
             s2 = upd_elem ModalSubtitle
                    (\<lambda>e. e\<lparr>innerHTML := js ''Accurate text highlighting and navigation''\<rparr>) s1;
             s3 = s2\<lparr>currentDocumentName := filename src,
                     currentPdfUrl := js ''/docs/'' @ filename src\<rparr>;
             s4 = s3\<lparr>document := document s3 ++ map_of viewer_template\<rparr>
         in upd_elem SnippetModal (\<lambda>e. e\<lparr>hidden := False\<rparr>) s4))"

subsection \<open>Rendering a page\<close>

text \<open>The \<open>catch\<close> block of \<open>renderPageAccurately\<close>.\<close>

definition renderPage_catch :: "js_error \<Rightarrow> app \<Rightarrow> app" where
  "renderPage_catch err s =
     showAlert (js ''Error rendering PDF page: '' @ message err) ErrorT (s\<lparr>pageRendering := False\<rparr>)"

text \<open>
  \<open>renderPageAccurately(num)\<close> up to its first \<open>await\<close>: while a render is in flight the page
  number is only recorded; otherwise the flag is set and \<open>pdfDoc.getPage(num)\<close> is called,
  which throws into the \<open>catch\<close> block when there is no document.
\<close>

definition renderPageAccurately :: "int \<Rightarrow> app \<Rightarrow> app" where
  "renderPageAccurately num s =
     (if pageRendering s then s\<lparr>pageNumPending := Some num\<rparr>
      else
        (let s1 = s\<lparr>pageRendering := True\<rparr>
         in case pdfDoc s1 of
              None \<Rightarrow> renderPage_catch TypeError s1
            | Some d \<Rightarrow> s1\<lparr>getPageCalls := getPageCalls s1 @ [num]\<rparr>))"

text \<open>
  After \<open>getPage\<close> has resolved: without the display container the render is given up;
  otherwise the container's content is replaced by the page's canvas and text layer (which
  removes the loading placeholder) and the page is painted.
\<close>

definition renderPageAccurately_gotPage :: "app \<Rightarrow> app" where
  "renderPageAccurately_gotPage s =
     (if \<not> present s PdfDisplayContainer then s\<lparr>pageRendering := False\<rparr>
      else s\<lparr>document := (document s)(LoadingMessage := None)\<rparr>)"

text \<open>
  After the canvas and the text layer are done, for the call whose argument was \<open>num\<close>:
  the flag is cleared, a pending page is rendered and the pending slot emptied, and the
  page indicator is written.
\<close>

definition renderPageAccurately_rendered :: "int \<Rightarrow> app \<Rightarrow> app" where
  "renderPageAccurately_rendered num s =
     (let s1 = s\<lparr>pageRendering := False\<rparr>;
          s2 = (case pageNumPending s1 of
                  None \<Rightarrow> s1
                | Some p \<Rightarrow> (renderPageAccurately p s1)\<lparr>pageNumPending := None\<rparr>)
      in if \<not> present s2 PageInfoDisplay then s2
         else
           (case pdfDoc s2 of
              None \<Rightarrow> renderPage_catch TypeError s2
            | Some d \<Rightarrow>
                upd_elem PageInfoDisplay
                  (\<lambda>e. e\<lparr>innerHTML := js ''Page '' @ show_int num @ js '' of '' @ show_int (numPages d)\<rparr>)
                  s2))"

text \<open>One of the awaited promises of a render rejects.\<close>

definition renderPageAccurately_rejected :: "js_error \<Rightarrow> app \<Rightarrow> app" where
  "renderPageAccurately_rejected err s = renderPage_catch err s"

subsection \<open>Text selection\<close>

definition clearPDFSelection :: "app \<Rightarrow> app" where
  "clearPDFSelection s =
     (let s1 = upd_elem TextSelectionDisplay (\<lambda>e. e\<lparr>display := js ''none''\<rparr>) (s\<lparr>selectedText := []\<rparr>)
      in toast (js ''Selection cleared'') Info (s1\<lparr>windowSelection := []\<rparr>))"

text \<open>
  The function that \<open>handleSelection\<close> schedules with \<open>setTimeout\<close>: what runs once the
  250 ms after the last \<open>mouseup\<close> or \<open>touchend\<close> on the text layer have passed.
\<close>

definition handleSelection_timeout :: "app \<Rightarrow> app" where
  "handleSelection_timeout s =
     (let selected = trim (windowSelection s)
      in if length selected > 5 then
           (let s1 = s\<lparr>selectedText := selected\<rparr>;
                s2 = (if present s1 SelectedTextBox \<and> present s1 TextSelectionDisplay then
                        upd_elem TextSelectionDisplay (\<lambda>e. e\<lparr>display := js ''block''\<rparr>)
                          (upd_elem SelectedTextBox (\<lambda>e. e\<lparr>innerHTML := selected\<rparr>) s1)
                      else s1)
            in toast (js ''Selected '' @ show_nat (length selected)
                        @ js '' characters. Use buttons below to generate questions.'') Success s2)
         else clearPDFSelection s)"

subsection \<open>Loading a document, and the navigation controls\<close>

text \<open>
  \<open>initializeAccuratePDFViewer\<close> once the document has loaded, up to its \<open>await\<close> of the
  first render, and after it.
\<close>

definition initializeAccuratePDFViewer_loaded :: "pdf_document \<Rightarrow> app \<Rightarrow> app" where
  "initializeAccuratePDFViewer_loaded d s =
     (let s1 = upd_elem LoadingMessage (\<lambda>e. e\<lparr>display := js ''none''\<rparr>) (s\<lparr>pdfDoc := Some d\<rparr>);
          s2 = s1\<lparr>pageNum := 1, scale := 1\<rparr>
      in renderPageAccurately (pageNum s2) s2)"

definition initializeAccuratePDFViewer_bound :: "app \<Rightarrow> app" where
  "initializeAccuratePDFViewer_bound s =
     toast (js ''PDF loaded successfully with accurate highlighting!'') Success s"

text \<open>
  The \<open>onclick\<close> handlers that \<open>bindPDFNavigationControls\<close> installs. The handler of the
  next button reads \<open>this.pdfDoc.numPages\<close> outside any \<open>try\<close>. \<open>zoomed\<close> is what the
  two zoom handlers share, all but their first statement.
\<close>

definition prevPage_click :: "app \<Rightarrow> app" where
  "prevPage_click s =
     (if pageNum s \<le> 1 then toast (js ''Already on first page'') Info s
      else
        (let s1 = s\<lparr>pageNum := pageNum s - 1\<rparr>
         in clearPDFSelection (renderPageAccurately (pageNum s1) s1)))"

definition nextPage_click :: "app \<Rightarrow> js_error + app" where
  "nextPage_click s =
     (case pdfDoc s of
        None \<Rightarrow> Inl TypeError
      | Some d \<Rightarrow>
          if pageNum s \<ge> numPages d then Inr (toast (js ''Already on last page'') Info s)
          else
            (let s1 = s\<lparr>pageNum := pageNum s + 1\<rparr>
             in Inr (clearPDFSelection (renderPageAccurately (pageNum s1) s1))))"

definition zoomed :: "app \<Rightarrow> app" where
  "zoomed s =
     (let s1 = renderPageAccurately (pageNum s) s;
          s2 = upd_elem ZoomLevelDisplay
                 (\<lambda>e. e\<lparr>innerHTML := show_int (Math_round (scale s1 * 100)) @ js ''%''\<rparr>) s1;
          s3 = clearPDFSelection s2
      in toast (js ''Zoomed to '' @ show_int (Math_round (scale s3 * 100)) @ js ''%'') Info s3)"

definition zoomIn_click :: "app \<Rightarrow> app" where
  "zoomIn_click s = zoomed (s\<lparr>scale := min (scale s + 1 / 4) 3\<rparr>)"

definition zoomOut_click :: "app \<Rightarrow> app" where
  "zoomOut_click s = zoomed (s\<lparr>scale := max (scale s - 1 / 4) (1 / 2)\<rparr>)"

text \<open>
  An error that leaves a handler reaches the page's \<open>error\<close> listener, which shows a
  notification; the page goes on.
\<close>

definition window_error :: "app \<Rightarrow> app" where
  "window_error s = showAlert (js ''An unexpected error occurred'') ErrorT s"

datatype zoom_action = ZoomIn | ZoomOut

fun zoom_step :: "app \<Rightarrow> zoom_action \<Rightarrow> app" where
  "zoom_step s ZoomIn = zoomIn_click s"
| "zoom_step s ZoomOut = zoomOut_click s"

datatype nav_action = PrevPage | NextPage

fun nav_step :: "app \<Rightarrow> nav_action \<Rightarrow> app" where
  "nav_step s PrevPage = prevPage_click s"
| "nav_step s NextPage = (case nextPage_click s of Inl err \<Rightarrow> window_error s | Inr s' \<Rightarrow> s')"

subsection \<open>Example pages\<close>

text \<open>
  A page on which every element exists, empty and visible, and the same page with two
  blanks typed into the question field.
\<close>

definition page :: "elem_id \<Rightarrow> elem option" where
  "page = (\<lambda>i. Some (new_elem [] []))"

definition blank_page :: "elem_id \<Rightarrow> elem option" where
  "blank_page = page(QueryInput \<mapsto> new_elem (js ''  '') [])"

text \<open>
  Example data: a PDF source and a web source, a document of three pages, a response with
  an answer and both sources, and a response that has a source but no \<open>answer\<close> field.
\<close>

definition sample_source :: source where
  "sample_source =
     \<lparr>filename = js ''a.pdf'', content_preview = js ''intro'', content_snippet = None,
      relevance = 87 / 100, is_web_result = False\<rparr>"

definition web_source :: source where
  "web_source =
     \<lparr>filename = js ''vit.ac.in'', content_preview = js ''fees'', content_snippet = None,
      relevance = 1 / 8, is_web_result = True\<rparr>"

definition sample_document :: pdf_document where
  "sample_document = \<lparr>numPages = 3\<rparr>"

definition sample_response :: query_data where
  "sample_response =
     \<lparr>answer = Some (js ''See the handbook.''), detailed_answer = Some (js ''Section 2.''),
      sources = Some [sample_source, web_source], justification = None, error = None\<rparr>"

definition no_answer_response :: query_data where
  "no_answer_response =
     \<lparr>answer = None, detailed_answer = None, sources = Some [sample_source],
      justification = None, error = None\<rparr>"

text \<open>
  The controller in the middle of a viewer session on \<open>a.pdf\<close>: the user has gone to page 2
  and zoomed in once, the render of page 2 is in flight with page 2 pending again, some
  text is selected, and the window's selection is that text with blanks around it.
\<close>

definition viewing :: app where
  "viewing =
     (constructor page)
       \<lparr>selectedText := js ''Admission rules'', currentPdfUrl := js ''/docs/a.pdf'',
        currentDocumentName := js ''a.pdf'', pdfDoc := Some sample_document, pageNum := 2,
        scale := 5 / 4, pageRendering := True, pageNumPending := Some 2,
        getPageCalls := [1, 2], windowSelection := js ''  Admission rules ''\<rparr>"

text \<open>
  The session that leads there: the card of \<open>a.pdf\<close> is opened, the document loads, the
  first page is fetched and rendered, the user clicks next, then zoom-in, selects text and
  the selection handler runs. \<open>same_fields\<close> compares the fields of the class.
\<close>

definition session :: app where
  "session =
     handleSelection_timeout
       ((zoomIn_click
          (nav_step
            (renderPageAccurately_rendered 1
              (renderPageAccurately_gotPage
                (initializeAccuratePDFViewer_loaded sample_document
                  (openAccuratePDFViewer sample_source (constructor page)))))
            NextPage))
        \<lparr>windowSelection := js ''  Admission rules ''\<rparr>)"

definition same_fields :: "app \<Rightarrow> app \<Rightarrow> bool" where
  "same_fields s t \<longleftrightarrow>
     currentQuery s = currentQuery t \<and> currentResult s = currentResult t
     \<and> detailVisible s = detailVisible t \<and> selectedText s = selectedText t
     \<and> currentPdfUrl s = currentPdfUrl t \<and> currentDocumentName s = currentDocumentName t
     \<and> pdfDoc s = pdfDoc t \<and> pageNum s = pageNum t \<and> scale s = scale t
     \<and> pageRendering s = pageRendering t \<and> pageNumPending s = pageNumPending t"

text \<open>The controller after an answer has arrived and the results were hidden again.\<close>

definition answered :: app where
  "answered = hideResults ((constructor page)\<lparr>currentResult := Some sample_response\<rparr>)"

section \<open>Properties\<close>

subsection \<open>What the helpers leave unchanged\<close>

lemma upd_elem_fields [simp]:
  "currentQuery (upd_elem i f s) = currentQuery s"
  "currentResult (upd_elem i f s) = currentResult s"
  "detailVisible (upd_elem i f s) = detailVisible s"
  "selectedText (upd_elem i f s) = selectedText s"
  "currentPdfUrl (upd_elem i f s) = currentPdfUrl s"
  "currentDocumentName (upd_elem i f s) = currentDocumentName s"
  "pdfDoc (upd_elem i f s) = pdfDoc s"
  "pageNum (upd_elem i f s) = pageNum s"
  "scale (upd_elem i f s) = scale s"
  "pageRendering (upd_elem i f s) = pageRendering s"
  "pageNumPending (upd_elem i f s) = pageNumPending s"
  "cards (upd_elem i f s) = cards s"
  "toasts (upd_elem i f s) = toasts s"
  "requests (upd_elem i f s) = requests s"
  "getPageCalls (upd_elem i f s) = getPageCalls s"
  "windowSelection (upd_elem i f s) = windowSelection s"
  by (simp_all add: upd_elem_def split: option.split)

lemma document_upd_elem [simp]:
  "document (upd_elem i f s) j = (if j = i then map_option f (document s i) else document s j)"
  by (simp add: upd_elem_def split: option.split)

lemma present_upd_elem [simp]: "present (upd_elem i f s) j = present s j"
  by (simp add: present_def)

lemma present_simps [simp]:
  "present (s\<lparr>currentQuery := a1\<rparr>) j = present s j"
  "present (s\<lparr>currentResult := a2\<rparr>) j = present s j"
  "present (s\<lparr>detailVisible := a3\<rparr>) j = present s j"
  "present (s\<lparr>selectedText := a4\<rparr>) j = present s j"
  "present (s\<lparr>currentPdfUrl := a5\<rparr>) j = present s j"
  "present (s\<lparr>currentDocumentName := a6\<rparr>) j = present s j"
  "present (s\<lparr>pdfDoc := a7\<rparr>) j = present s j"
  "present (s\<lparr>pageNum := a8\<rparr>) j = present s j"
  "present (s\<lparr>scale := a9\<rparr>) j = present s j"
  "present (s\<lparr>pageRendering := a10\<rparr>) j = present s j"
  "present (s\<lparr>pageNumPending := a11\<rparr>) j = present s j"
  "present (s\<lparr>cards := a12\<rparr>) j = present s j"
  "present (s\<lparr>toasts := a13\<rparr>) j = present s j"
  "present (s\<lparr>requests := a14\<rparr>) j = present s j"
  "present (s\<lparr>getPageCalls := a15\<rparr>) j = present s j"
  "present (s\<lparr>windowSelection := a16\<rparr>) j = present s j"
  by (simp_all add: present_def)

lemma toast_fields [simp]:
  "currentQuery (toast m ty s) = currentQuery s"
  "currentResult (toast m ty s) = currentResult s"
  "detailVisible (toast m ty s) = detailVisible s"
  "selectedText (toast m ty s) = selectedText s"
  "currentPdfUrl (toast m ty s) = currentPdfUrl s"
  "currentDocumentName (toast m ty s) = currentDocumentName s"
  "pdfDoc (toast m ty s) = pdfDoc s"
  "pageNum (toast m ty s) = pageNum s"
  "scale (toast m ty s) = scale s"
  "pageRendering (toast m ty s) = pageRendering s"
  "pageNumPending (toast m ty s) = pageNumPending s"
  "document (toast m ty s) = document s"
  "cards (toast m ty s) = cards s"
  "requests (toast m ty s) = requests s"
  "getPageCalls (toast m ty s) = getPageCalls s"
  "windowSelection (toast m ty s) = windowSelection s"
  by (simp_all add: toast_def)

lemma toasts_toast [simp]:
  "toasts (toast m ty s) = (if present s Toasts then toasts s @ [(m, ty)] else toasts s)"
  by (simp add: toast_def)

lemma present_toast [simp]: "present (toast m ty s) j = present s j"
  by (simp add: present_def)

lemma toast_present: "present s Toasts \<Longrightarrow> toast m ty s = s\<lparr>toasts := toasts s @ [(m, ty)]\<rparr>"
  by (simp add: toast_def)


lemma clearPDFSelection_fields [simp]:
  "pageNum (clearPDFSelection s) = pageNum s"
  "scale (clearPDFSelection s) = scale s"
  "pdfDoc (clearPDFSelection s) = pdfDoc s"
  "pageRendering (clearPDFSelection s) = pageRendering s"
  "pageNumPending (clearPDFSelection s) = pageNumPending s"
  "getPageCalls (clearPDFSelection s) = getPageCalls s"
  "selectedText (clearPDFSelection s) = []"
  "present (clearPDFSelection s) j = present s j"
  by (simp_all add: clearPDFSelection_def Let_def)

lemma renderPageAccurately_fields [simp]:
  "pageNum (renderPageAccurately n s) = pageNum s"
  "scale (renderPageAccurately n s) = scale s"
  "pdfDoc (renderPageAccurately n s) = pdfDoc s"
  "present (renderPageAccurately n s) j = present s j"
  by (simp_all add: renderPageAccurately_def renderPage_catch_def showAlert_def Let_def
        split: option.split)

lemma zoomed_fields [simp]:
  "scale (zoomed s) = scale s" "pageNum (zoomed s) = pageNum s" "pdfDoc (zoomed s) = pdfDoc s"
  by (simp_all add: zoomed_def Let_def)

lemma scale_zoomIn: "scale (zoomIn_click s) = min (scale s + 1 / 4) 3"
  by (simp add: zoomIn_click_def)

lemma scale_zoomOut: "scale (zoomOut_click s) = max (scale s - 1 / 4) (1 / 2)"
  by (simp add: zoomOut_click_def)

lemma zoom_step_range:
  "1 / 2 \<le> scale s \<Longrightarrow> scale s \<le> 3 \<Longrightarrow> 1 / 2 \<le> scale (zoom_step s a) \<and> scale (zoom_step s a) \<le> 3"
  by (cases a) (auto simp: scale_zoomIn scale_zoomOut)

lemma zoom_steps_range:
  "1 / 2 \<le> scale s \<Longrightarrow> scale s \<le> 3 \<Longrightarrow>
   1 / 2 \<le> scale (foldl zoom_step s acts) \<and> scale (foldl zoom_step s acts) \<le> 3"
proof (induction acts arbitrary: s)
  case Nil
  then show ?case by simp
next
  case (Cons a acts)
  have "1 / 2 \<le> scale (zoom_step s a) \<and> scale (zoom_step s a) \<le> 3"
    using Cons.prems by (rule zoom_step_range)
  then have "1 / 2 \<le> scale (foldl zoom_step (zoom_step s a) acts)
      \<and> scale (foldl zoom_step (zoom_step s a) acts) \<le> 3"
    using Cons.IH by blast
  then show ?case by (simp only: foldl_Cons)
qed

lemma Math_round_percent_range:
  assumes "1 / 2 \<le> x" and "x \<le> 3"
  shows "50 \<le> Math_round (x * 100) \<and> Math_round (x * 100) \<le> 300"
proof -
  have "of_int 50 \<le> x * 100 + 1 / 2" using assms by simp
  moreover have "x * 100 + 1 / 2 < of_int 300 + 1" using assms by simp
  ultimately show ?thesis
    unfolding Math_round_def by (simp only: le_floor_iff floor_le_iff) 
qed

subsection \<open>The example states\<close>

lemma present_page: "document s = page \<Longrightarrow> present s i"
  by (simp add: present_def page_def)

lemma viewing_fields:
  "pageNum viewing = 2" "scale viewing = 5 / 4" "pageRendering viewing"
  "pageNumPending viewing = Some 2" "selectedText viewing = js ''Admission rules''"
  "currentPdfUrl viewing = js ''/docs/a.pdf''" "currentDocumentName viewing = js ''a.pdf''"
  "getPageCalls viewing = [1, 2]" "pdfDoc viewing = Some sample_document"
  "toasts viewing = []" "document viewing = page"
  by (simp_all add: viewing_def constructor_def)

text \<open>The session ends in the fields of \<open>viewing\<close>, with the viewer modal open.\<close>

lemma session_reaches_viewing:
  "same_fields session viewing \<and> getPageCalls session = getPageCalls viewing
   \<and> windowSelection session = windowSelection viewing
   \<and> map_option hidden (document session SnippetModal) = Some False"
proof -
  define s1 where "s1 = openAccuratePDFViewer sample_source (constructor page)"
  define s2 where "s2 = initializeAccuratePDFViewer_loaded sample_document s1"
  define s3 where "s3 = renderPageAccurately_gotPage s2"
  define s4 where "s4 = renderPageAccurately_rendered 1 s3"
  define s5 where "s5 = nav_step s4 NextPage"
  define s6 where "s6 = (zoomIn_click s5)\<lparr>windowSelection := js ''  Admission rules ''\<rparr>"
  have f1: "currentQuery s1 = []" "currentResult s1 = None" "\<not> detailVisible s1"
      "selectedText s1 = []"
      "pdfDoc s1 = None" "pageNum s1 = 1" "scale s1 = 1" "\<not> pageRendering s1"
      "pageNumPending s1 = None" "getPageCalls s1 = []"
      "currentPdfUrl s1 = js ''/docs/a.pdf''" "currentDocumentName s1 = js ''a.pdf''"
      "map_option hidden (document s1 SnippetModal) = Some False"
      "present s1 PdfDisplayContainer" "present s1 PageInfoDisplay"
      "present s1 SelectedTextBox" "present s1 TextSelectionDisplay"
    unfolding s1_def
    by (simp_all add: openAccuratePDFViewer_def Let_def present_page constructor_def
          sample_source_def js_def present_def viewer_template_def page_def new_elem_def)
  have f2: "currentQuery s2 = []" "currentResult s2 = None" "\<not> detailVisible s2"
      "selectedText s2 = []"
      "pdfDoc s2 = Some sample_document" "pageNum s2 = 1" "scale s2 = 1" "pageRendering s2"
      "pageNumPending s2 = None" "getPageCalls s2 = [1]"
      "currentPdfUrl s2 = js ''/docs/a.pdf''" "currentDocumentName s2 = js ''a.pdf''"
      "map_option hidden (document s2 SnippetModal) = Some False"
      "present s2 PdfDisplayContainer" "present s2 PageInfoDisplay"
      "present s2 SelectedTextBox" "present s2 TextSelectionDisplay"
    unfolding s2_def using f1
    by (simp_all add: initializeAccuratePDFViewer_loaded_def renderPageAccurately_def Let_def)
  have f3: "currentQuery s3 = []" "currentResult s3 = None" "\<not> detailVisible s3"
      "selectedText s3 = []"
      "pdfDoc s3 = Some sample_document" "pageNum s3 = 1" "scale s3 = 1" "pageRendering s3"
      "pageNumPending s3 = None" "getPageCalls s3 = [1]"
      "currentPdfUrl s3 = js ''/docs/a.pdf''" "currentDocumentName s3 = js ''a.pdf''"
      "map_option hidden (document s3 SnippetModal) = Some False"
      "present s3 PageInfoDisplay"
      "present s3 SelectedTextBox" "present s3 TextSelectionDisplay"
    unfolding s3_def using f2
    by (simp_all add: renderPageAccurately_gotPage_def present_def)
  have f4: "currentQuery s4 = []" "currentResult s4 = None" "\<not> detailVisible s4"
      "selectedText s4 = []"
      "pdfDoc s4 = Some sample_document" "pageNum s4 = 1" "scale s4 = 1" "\<not> pageRendering s4"
      "pageNumPending s4 = None" "getPageCalls s4 = [1]"
      "currentPdfUrl s4 = js ''/docs/a.pdf''" "currentDocumentName s4 = js ''a.pdf''"
      "map_option hidden (document s4 SnippetModal) = Some False"
      "present s4 SelectedTextBox" "present s4 TextSelectionDisplay"
    unfolding s4_def using f3
    by (simp_all add: renderPageAccurately_rendered_def Let_def)
  have np: "numPages sample_document = 3"
    by (simp add: sample_document_def)
  have f5: "currentQuery s5 = []" "currentResult s5 = None" "\<not> detailVisible s5"
      "selectedText s5 = []"
      "pdfDoc s5 = Some sample_document" "pageNum s5 = 2" "scale s5 = 1" "pageRendering s5"
      "pageNumPending s5 = None" "getPageCalls s5 = [1, 2]"
      "currentPdfUrl s5 = js ''/docs/a.pdf''" "currentDocumentName s5 = js ''a.pdf''"
      "map_option hidden (document s5 SnippetModal) = Some False"
      "present s5 SelectedTextBox" "present s5 TextSelectionDisplay"
    unfolding s5_def using f4
    by (simp_all add: nextPage_click_def np Let_def renderPageAccurately_def clearPDFSelection_def)
  have f6: "currentQuery s6 = []" "currentResult s6 = None" "\<not> detailVisible s6"
      "pdfDoc s6 = Some sample_document" "pageNum s6 = 2" "scale s6 = 5 / 4" "pageRendering s6"
      "pageNumPending s6 = Some 2" "getPageCalls s6 = [1, 2]"
      "currentPdfUrl s6 = js ''/docs/a.pdf''" "currentDocumentName s6 = js ''a.pdf''"
      "map_option hidden (document s6 SnippetModal) = Some False"
      "present s6 SelectedTextBox" "present s6 TextSelectionDisplay"
      "windowSelection s6 = js ''  Admission rules ''"
    unfolding s6_def using f5
    by (simp_all add: zoomIn_click_def zoomed_def Let_def renderPageAccurately_def
          clearPDFSelection_def)
  have tr: "trim (js ''  Admission rules '') = js ''Admission rules''"
    by (simp add: trim_def js_def is_space_def)
  have e: "session = handleSelection_timeout s6"
    by (simp only: session_def s1_def s2_def s3_def s4_def s5_def s6_def)
  have w: "windowSelection viewing = js ''  Admission rules ''"
    by (simp add: viewing_def)
  have c: "currentQuery viewing = []" "currentResult viewing = None" "\<not> detailVisible viewing"
    by (simp_all add: viewing_def constructor_def)
  have l: "length (js ''Admission rules'') > 5"
    by (simp add: js_def)
  show ?thesis
    unfolding e same_fields_def using f6 l
    by (simp add: handleSelection_timeout_def Let_def tr viewing_fields w c)
qed

lemma trim_viewing: "trim (windowSelection viewing) = js ''Admission rules''"
  by (simp add: viewing_def constructor_def trim_def js_def is_space_def)

lemma answered_fields:
  "map_option hidden (document answered DetailCard) = Some True"
  "map_option innerHTML (document answered DetailToggle) = Some detailsLabel"
  "\<not> detailVisible answered" "currentResult answered = Some sample_response"
  by (simp_all add: answered_def hideResults_def Let_def constructor_def page_def)

subsection \<open>Submitting an empty question\<close>

text \<open>
  C2. When the trimmed question is empty (or there is no question field), \<open>processQuery\<close>
  sends no request: the list of requests is unchanged. It shows the warning
  "Please enter a question." (on a page that has the \<open>#toasts\<close> container, where every
  notification goes) and changes nothing else, so the current query and the current
  result stay as they were.
\<close>

theorem processQuery_empty_question:
  assumes "question s = []" and "present s Toasts"
  shows "processQuery s = s\<lparr>toasts := toasts s @ [(js ''Please enter a question.'', Warn)]\<rparr>
       \<and> requests (processQuery s) = requests s
       \<and> currentQuery (processQuery s) = currentQuery s
       \<and> currentResult (processQuery s) = currentResult s"
  using assms by (simp add: processQuery_def showAlert_def toast_present)

theorem processQuery_empty_question_witness:
  "question (constructor blank_page) = [] \<and> present (constructor blank_page) Toasts
   \<and> processQuery (constructor blank_page)
       = (constructor blank_page)\<lparr>toasts := [(js ''Please enter a question.'', Warn)]\<rparr>
   \<and> requests (processQuery (constructor blank_page)) = []"
proof -
  have q: "question (constructor blank_page) = []"
    by (simp add: question_def constructor_def blank_page_def new_elem_def js_def trim_def
          is_space_def)
  have p: "present (constructor blank_page) Toasts"
    by (simp add: present_def constructor_def blank_page_def page_def)
  from processQuery_empty_question [OF q p] q p show ?thesis
    by (simp add: constructor_def)
qed

subsection \<open>Zoom\<close>

text \<open>
  C3. From the zoom scale 1, every sequence of clicks on the zoom-in and zoom-out
  buttons leaves the scale between 0.5 and 3, so that the percentage shown,
  \<open>Math.round(scale * 100)\<close>, is between 50 and 300; a click on zoom-in sets the scale to
  \<open>min(scale + 0.25, 3)\<close> and a click on zoom-out to \<open>max(scale - 0.25, 0.5)\<close>.
\<close>

theorem zoom_scale_clamped:
  assumes "scale s = 1"
  shows "1 / 2 \<le> scale (foldl zoom_step s acts) \<and> scale (foldl zoom_step s acts) \<le> 3
       \<and> 50 \<le> Math_round (scale (foldl zoom_step s acts) * 100)
       \<and> Math_round (scale (foldl zoom_step s acts) * 100) \<le> 300
       \<and> scale (zoom_step (foldl zoom_step s acts) ZoomIn)
           = min (scale (foldl zoom_step s acts) + 1 / 4) 3
       \<and> scale (zoom_step (foldl zoom_step s acts) ZoomOut)
           = max (scale (foldl zoom_step s acts) - 1 / 4) (1 / 2)"
proof -
  have r: "1 / 2 \<le> scale (foldl zoom_step s acts) \<and> scale (foldl zoom_step s acts) \<le> 3"
    using assms by (intro zoom_steps_range) simp_all
  with Math_round_percent_range [of "scale (foldl zoom_step s acts)"] show ?thesis
    by (simp add: scale_zoomIn scale_zoomOut)
qed

theorem zoom_scale_clamped_witness:
  "scale (constructor page) = 1
   \<and> scale (foldl zoom_step (constructor page)
        [ZoomIn, ZoomIn, ZoomIn, ZoomIn, ZoomIn, ZoomIn, ZoomIn, ZoomIn, ZoomIn]) \<le> 3
   \<and> scale (foldl zoom_step (constructor page)
        [ZoomIn, ZoomIn, ZoomIn, ZoomIn, ZoomIn, ZoomIn, ZoomIn, ZoomIn, ZoomIn]) = 3"
proof -
  have i: "scale (constructor page) = 1"
    by (simp add: constructor_def)
  from zoom_scale_clamped [OF i, of "[ZoomIn, ZoomIn, ZoomIn, ZoomIn, ZoomIn, ZoomIn, ZoomIn, ZoomIn, ZoomIn]"]
  show ?thesis
    by (simp add: constructor_def scale_zoomIn)
qed

subsection \<open>Render requests while a render is in flight\<close>

lemma renderPageAccurately_in_flight:
  "pageRendering s \<Longrightarrow> renderPageAccurately n s = s\<lparr>pageNumPending := Some n\<rparr>"
  by (simp add: renderPageAccurately_def)

lemma requests_in_flight:
  "pageRendering s \<Longrightarrow>
   foldl (\<lambda>t n. renderPageAccurately n t) s (ns @ [n]) = s\<lparr>pageNumPending := Some n\<rparr>"
proof (induction ns arbitrary: s)
  case Nil
  then show ?case by (simp add: renderPageAccurately_in_flight)
next
  case (Cons m ns)
  have "foldl (\<lambda>t n. renderPageAccurately n t) (s\<lparr>pageNumPending := Some m\<rparr>) (ns @ [n])
          = s\<lparr>pageNumPending := Some m\<rparr>\<lparr>pageNumPending := Some n\<rparr>"
    using Cons.prems by (intro Cons.IH) simp
  then show ?case using Cons.prems by (simp add: renderPageAccurately_in_flight)
qed

text \<open>
  C4, as amended. While a render is in flight (\<open>pageRendering\<close> is true), a request to
  render page \<open>n\<close> starts no render (no call of \<open>getPage\<close>) and only stores \<open>n\<close> in the
  pending slot, over whatever was there: after any requests \<open>ns\<close> followed by \<open>n\<close> the
  state is the first one with \<open>n\<close> pending. When the render in flight then finishes, the
  pending slot is emptied. If a document is still loaded, exactly one render is started,
  that of \<open>n\<close>, and the flag is set again; none of the pages \<open>ns\<close> requested in between
  is rendered. If the document handle is gone, because the viewer was closed in the
  meantime, no render is started and the flag stays cleared. When nothing is pending, the
  end of the render starts no render and leaves the flag cleared.
\<close>

theorem render_requests_coalesced:
  assumes "pageRendering s"
  shows "renderPageAccurately n s = s\<lparr>pageNumPending := Some n\<rparr>
       \<and> getPageCalls (renderPageAccurately n s) = getPageCalls s
       \<and> foldl (\<lambda>t m. renderPageAccurately m t) s (ns @ [n]) = s\<lparr>pageNumPending := Some n\<rparr>
       \<and> pageNumPending (renderPageAccurately_rendered num
            (foldl (\<lambda>t m. renderPageAccurately m t) s (ns @ [n]))) = None
       \<and> (pdfDoc s \<noteq> None \<longrightarrow>
            getPageCalls (renderPageAccurately_rendered num
              (foldl (\<lambda>t m. renderPageAccurately m t) s (ns @ [n]))) = getPageCalls s @ [n]
            \<and> pageRendering (renderPageAccurately_rendered num
                (foldl (\<lambda>t m. renderPageAccurately m t) s (ns @ [n]))))
       \<and> (pdfDoc s = None \<longrightarrow>
            getPageCalls (renderPageAccurately_rendered num
              (foldl (\<lambda>t m. renderPageAccurately m t) s (ns @ [n]))) = getPageCalls s
            \<and> \<not> pageRendering (renderPageAccurately_rendered num
                (foldl (\<lambda>t m. renderPageAccurately m t) s (ns @ [n]))))
       \<and> (pageNumPending s = None \<longrightarrow>
            getPageCalls (renderPageAccurately_rendered num s) = getPageCalls s
            \<and> pageNumPending (renderPageAccurately_rendered num s) = None
            \<and> \<not> pageRendering (renderPageAccurately_rendered num s))"
proof -
  let ?t = "s\<lparr>pageNumPending := Some n\<rparr>"
  have one: "renderPageAccurately n s = ?t"
    using assms by (rule renderPageAccurately_in_flight)
  have many: "foldl (\<lambda>t m. renderPageAccurately m t) s (ns @ [n]) = ?t"
    using assms by (rule requests_in_flight)
  have emptied: "pageNumPending (renderPageAccurately_rendered num ?t) = None"
    by (simp add: renderPageAccurately_rendered_def renderPageAccurately_def renderPage_catch_def
          showAlert_def Let_def split: option.split)
  have loaded: "getPageCalls (renderPageAccurately_rendered num ?t) = getPageCalls s @ [n]
      \<and> pageRendering (renderPageAccurately_rendered num ?t)" if "pdfDoc s = Some d" for d
  proof -
    have start: "renderPageAccurately n (?t\<lparr>pageRendering := False\<rparr>)
        = ?t\<lparr>pageRendering := True, getPageCalls := getPageCalls s @ [n]\<rparr>"
      using that by (simp add: renderPageAccurately_def)
    show ?thesis
      using that by (simp add: renderPageAccurately_rendered_def start Let_def)
  qed
  have dropped: "getPageCalls (renderPageAccurately_rendered num ?t) = getPageCalls s
      \<and> \<not> pageRendering (renderPageAccurately_rendered num ?t)" if "pdfDoc s = None"
  proof -
    have start: "renderPageAccurately n (?t\<lparr>pageRendering := False\<rparr>)
        = renderPage_catch TypeError (?t\<lparr>pageRendering := True\<rparr>)"
      using that by (simp add: renderPageAccurately_def)
    show ?thesis
      using that
      by (simp add: renderPageAccurately_rendered_def start renderPage_catch_def showAlert_def
            Let_def)
  qed
  have none: "pageNumPending s = None \<longrightarrow>
      getPageCalls (renderPageAccurately_rendered num s) = getPageCalls s
      \<and> pageNumPending (renderPageAccurately_rendered num s) = None
      \<and> \<not> pageRendering (renderPageAccurately_rendered num s)"
    by (simp add: renderPageAccurately_rendered_def renderPage_catch_def showAlert_def Let_def
          split: option.split)
  show ?thesis
    unfolding many one using emptied loaded dropped none by auto
qed

theorem render_requests_coalesced_witness:
  "pageRendering viewing \<and> pdfDoc viewing = Some sample_document
   \<and> getPageCalls viewing = [1, 2]
   \<and> getPageCalls (renderPageAccurately_rendered 2
        (foldl (\<lambda>t m. renderPageAccurately m t) viewing ([1, 3] @ [1]))) = [1, 2, 1]
   \<and> pageNumPending (renderPageAccurately_rendered 2
        (foldl (\<lambda>t m. renderPageAccurately m t) viewing ([1, 3] @ [1]))) = None"
proof -
  note inst = render_requests_coalesced [OF viewing_fields(3), of 1 "[1, 3]" 2]
  have doc: "pdfDoc viewing \<noteq> None"
    by (simp add: viewing_fields)
  from inst doc have calls: "getPageCalls (renderPageAccurately_rendered 2
        (foldl (\<lambda>t m. renderPageAccurately m t) viewing ([1, 3] @ [1]))) = getPageCalls viewing @ [1]"
    by blast
  from inst have pending: "pageNumPending (renderPageAccurately_rendered 2
        (foldl (\<lambda>t m. renderPageAccurately m t) viewing ([1, 3] @ [1]))) = None"
    by blast
  show ?thesis
    unfolding calls pending by (simp add: viewing_fields)
qed

subsection \<open>Page navigation\<close>

lemma nav_step_inv:
  assumes "pdfDoc s = Some d" and "1 \<le> pageNum s" and "pageNum s \<le> numPages d"
  shows "pdfDoc (nav_step s a) = Some d \<and> 1 \<le> pageNum (nav_step s a)
       \<and> pageNum (nav_step s a) \<le> numPages d"
  using assms by (cases a) (auto simp: prevPage_click_def nextPage_click_def Let_def)

lemma nav_steps_inv:
  "pdfDoc s = Some d \<Longrightarrow> 1 \<le> pageNum s \<Longrightarrow> pageNum s \<le> numPages d \<Longrightarrow>
   pdfDoc (foldl nav_step s acts) = Some d \<and> 1 \<le> pageNum (foldl nav_step s acts)
   \<and> pageNum (foldl nav_step s acts) \<le> numPages d"
proof (induction acts arbitrary: s)
  case Nil
  then show ?case by simp
next
  case (Cons a acts)
  from nav_step_inv [OF Cons.prems, of a] show ?case
    by (simp add: Cons.IH)
qed

lemma loaded_fields:
  "pdfDoc (initializeAccuratePDFViewer_loaded d s) = Some d"
  "pageNum (initializeAccuratePDFViewer_loaded d s) = 1"
  "scale (initializeAccuratePDFViewer_loaded d s) = 1"
  "present (initializeAccuratePDFViewer_loaded d s) i = present s i"
  by (simp_all add: initializeAccuratePDFViewer_loaded_def Let_def)

lemma pageNum_nav_step:
  assumes "pdfDoc s = Some d"
  shows "pageNum (nav_step s NextPage) = (if pageNum s \<ge> numPages d then pageNum s else pageNum s + 1)"
    and "pageNum (nav_step s PrevPage) = (if pageNum s \<le> 1 then pageNum s else pageNum s - 1)"
    and "pdfDoc (nav_step s a) = Some d"
  using assms by (cases a; simp add: prevPage_click_def nextPage_click_def Let_def)+

text \<open>
  C5. With a document loaded and the current page its last one, a click on the next
  button only adds the notice "Already on last page": the page number is unchanged, no
  render is started or recorded as pending, and (on a page with the \<open>#toasts\<close> container)
  the info notice is shown.
\<close>

theorem nextPage_on_last_page:
  assumes "pdfDoc s = Some d" and "pageNum s = numPages d" and "present s Toasts"
  shows "nextPage_click s = Inr (s\<lparr>toasts := toasts s @ [(js ''Already on last page'', Info)]\<rparr>)
       \<and> pageNum (nav_step s NextPage) = pageNum s
       \<and> getPageCalls (nav_step s NextPage) = getPageCalls s
       \<and> pageRendering (nav_step s NextPage) = pageRendering s
       \<and> pageNumPending (nav_step s NextPage) = pageNumPending s
       \<and> toasts (nav_step s NextPage) = toasts s @ [(js ''Already on last page'', Info)]"
  using assms by (simp add: nextPage_click_def toast_present)

theorem nextPage_on_last_page_witness:
  "pdfDoc (viewing\<lparr>pageNum := 3\<rparr>) = Some sample_document
   \<and> pageNum (viewing\<lparr>pageNum := 3\<rparr>) = numPages sample_document
   \<and> present (viewing\<lparr>pageNum := 3\<rparr>) Toasts
   \<and> pageNum (nav_step (viewing\<lparr>pageNum := 3\<rparr>) NextPage) = 3
   \<and> getPageCalls (nav_step (viewing\<lparr>pageNum := 3\<rparr>) NextPage) = [1, 2]
   \<and> toasts (nav_step (viewing\<lparr>pageNum := 3\<rparr>) NextPage) = [(js ''Already on last page'', Info)]"
proof -
  have a: "pdfDoc (viewing\<lparr>pageNum := 3\<rparr>) = Some sample_document"
    by (simp add: viewing_fields)
  have b: "pageNum (viewing\<lparr>pageNum := 3\<rparr>) = numPages sample_document"
    by (simp add: sample_document_def)
  have c: "present (viewing\<lparr>pageNum := 3\<rparr>) Toasts"
    by (simp add: present_page viewing_fields)
  from nextPage_on_last_page [OF a b c] a b c show ?thesis
    by (simp add: viewing_fields)
qed

text \<open>
  C10. After a document with at least one page has loaded, which sets the page number to
  1, every sequence of clicks on the prev and next buttons leaves the page number between
  1 and \<open>numPages\<close>. On page 1 a click on the prev button only adds the notice "Already on
  first page": the page number is unchanged, no render is started or recorded as pending,
  and (on a page with the \<open>#toasts\<close> container) the info notice is shown.
\<close>

theorem page_number_in_range:
  assumes "1 \<le> numPages d"
  shows "1 \<le> pageNum (foldl nav_step (initializeAccuratePDFViewer_loaded d s) acts)
       \<and> pageNum (foldl nav_step (initializeAccuratePDFViewer_loaded d s) acts) \<le> numPages d
       \<and> (pageNum t = 1 \<and> present t Toasts \<longrightarrow>
            prevPage_click t = t\<lparr>toasts := toasts t @ [(js ''Already on first page'', Info)]\<rparr>
            \<and> pageNum (nav_step t PrevPage) = pageNum t
            \<and> getPageCalls (nav_step t PrevPage) = getPageCalls t
            \<and> pageRendering (nav_step t PrevPage) = pageRendering t
            \<and> pageNumPending (nav_step t PrevPage) = pageNumPending t)"
proof -
  have "1 \<le> pageNum (foldl nav_step (initializeAccuratePDFViewer_loaded d s) acts)
       \<and> pageNum (foldl nav_step (initializeAccuratePDFViewer_loaded d s) acts) \<le> numPages d"
    using nav_steps_inv [of "initializeAccuratePDFViewer_loaded d s" d acts] assms
    by (simp add: loaded_fields)
  then show ?thesis
    by (simp add: prevPage_click_def toast_present)
qed

theorem page_number_in_range_witness:
  "1 \<le> numPages sample_document
   \<and> pageNum (foldl nav_step (initializeAccuratePDFViewer_loaded sample_document (constructor page))
        [NextPage, NextPage, NextPage, NextPage, PrevPage]) \<le> numPages sample_document
   \<and> pageNum (foldl nav_step (initializeAccuratePDFViewer_loaded sample_document (constructor page))
        [NextPage, NextPage, NextPage, NextPage, PrevPage]) = 2
   \<and> pageNum (initializeAccuratePDFViewer_loaded sample_document (constructor page)) = 1
   \<and> present (initializeAccuratePDFViewer_loaded sample_document (constructor page)) Toasts
   \<and> pageNum (nav_step (initializeAccuratePDFViewer_loaded sample_document (constructor page)) PrevPage) = 1"
proof -
  let ?s = "initializeAccuratePDFViewer_loaded sample_document (constructor page)"
  have n: "1 \<le> numPages sample_document"
    by (simp add: sample_document_def)
  have p: "pageNum ?s = 1 \<and> present ?s Toasts"
    by (simp add: loaded_fields present_page constructor_def)
  have np: "numPages sample_document = 3"
    by (simp add: sample_document_def)
  have e: "pageNum (foldl nav_step ?s [NextPage, NextPage, NextPage, NextPage, PrevPage]) = 2"
    by (simp add: pageNum_nav_step [where d = sample_document] loaded_fields np
          del: nav_step.simps)
  from page_number_in_range [OF n, of "constructor page" "[NextPage, NextPage, NextPage, NextPage, PrevPage]" ?s]
    n p e
  show ?thesis by simp
qed

subsection \<open>The detail panel\<close>

text \<open>
  C6. From a state in which the detail panel is hidden, the Details button carries the
  label the code gives it while the panel is hidden (\<open>detailsLabel\<close>) and \<open>detailVisible\<close>
  is false, two calls of \<open>toggleDetailedExplanation\<close> end with the panel hidden, that
  label back on the button and \<open>detailVisible\<close> false. When there is a current result the
  first call does show the panel, with the label "Hide Details" and \<open>detailVisible\<close> true.
\<close>

theorem toggle_details_twice:
  assumes "map_option hidden (document s DetailCard) = Some True"
    and "map_option innerHTML (document s DetailToggle) = Some detailsLabel"
    and "\<not> detailVisible s"
  shows "map_option hidden
           (document (toggleDetailedExplanation fmt (toggleDetailedExplanation fmt s)) DetailCard)
           = Some True
       \<and> map_option innerHTML
           (document (toggleDetailedExplanation fmt (toggleDetailedExplanation fmt s)) DetailToggle)
           = Some detailsLabel
       \<and> \<not> detailVisible (toggleDetailedExplanation fmt (toggleDetailedExplanation fmt s))
       \<and> (currentResult s \<noteq> None \<longrightarrow>
            map_option hidden (document (toggleDetailedExplanation fmt s) DetailCard) = Some False
            \<and> map_option innerHTML (document (toggleDetailedExplanation fmt s) DetailToggle)
                = Some hideDetailsLabel
            \<and> detailVisible (toggleDetailedExplanation fmt s))"
proof (cases "currentResult s")
  case None
  then show ?thesis using assms by (simp add: toggleDetailedExplanation_def)
next
  case (Some res)
  from assms obtain c b where c: "document s DetailCard = Some c" and b: "document s DetailToggle = Some b"
    by auto
  have p: "present s DetailCard" "present s DetailToggle"
    using c b by (simp_all add: present_def)
  let ?t = "toggleDetailedExplanation fmt s"
  have t: "map_option hidden (document ?t DetailCard) = Some False"
      "map_option innerHTML (document ?t DetailToggle) = Some hideDetailsLabel"
      "detailVisible ?t" "currentResult ?t = Some res"
      "present ?t DetailCard" "present ?t DetailToggle"
    using Some assms(3) p c b by (simp_all add: toggleDetailedExplanation_def Let_def)
  from t(5,6) obtain c' b' where c': "document ?t DetailCard = Some c'" and b': "document ?t DetailToggle = Some b'"
    by (auto simp: present_def)
  have u: "map_option hidden (document (toggleDetailedExplanation fmt ?t) DetailCard) = Some True"
      "map_option innerHTML (document (toggleDetailedExplanation fmt ?t) DetailToggle) = Some detailsLabel"
      "\<not> detailVisible (toggleDetailedExplanation fmt ?t)"
    using t(3,4,5,6) c' b' by (simp_all add: toggleDetailedExplanation_def [of fmt ?t] Let_def)
  from t u show ?thesis by simp
qed

theorem toggle_details_twice_witness:
  "map_option hidden (document answered DetailCard) = Some True
   \<and> map_option innerHTML (document answered DetailToggle) = Some detailsLabel
   \<and> \<not> detailVisible answered
   \<and> currentResult answered \<noteq> None
   \<and> detailVisible (toggleDetailedExplanation id answered)
   \<and> map_option hidden (document (toggleDetailedExplanation id answered) DetailCard) = Some False
   \<and> map_option hidden
        (document (toggleDetailedExplanation id (toggleDetailedExplanation id answered)) DetailCard)
        = Some True
   \<and> \<not> detailVisible (toggleDetailedExplanation id (toggleDetailedExplanation id answered))"
  using toggle_details_twice [OF answered_fields(1) answered_fields(2) answered_fields(3), of id]
  by (simp add: answered_fields)

subsection \<open>Closing the viewer\<close>

lemma closeModal_fields:
  "selectedText (closeModal s) = []" "pdfDoc (closeModal s) = None"
  "currentPdfUrl (closeModal s) = []" "currentDocumentName (closeModal s) = []"
  "pageNum (closeModal s) = pageNum s" "scale (closeModal s) = scale s"
  "pageRendering (closeModal s) = pageRendering s" "pageNumPending (closeModal s) = pageNumPending s"
  "document (closeModal s) SnippetModal = map_option (\<lambda>e. e\<lparr>hidden := True\<rparr>) (document s SnippetModal)"
  by (simp_all add: closeModal_def cleanupModal_def)

lemma close_step_open:
  assumes "document s SnippetModal = Some m" and "\<not> hidden m" and "present s ModalClose"
  shows "close_step s a = closeModal s"
  using assms by (cases a) (simp_all add: modalClose_click_def window_keydown_def modal_click_def present_def)

lemma viewing_open:
  "document viewing SnippetModal = Some (new_elem [] [])" "\<not> hidden (new_elem [] [])"
  "present viewing ModalClose"
  by (simp_all add: viewing_fields page_def new_elem_def present_page)

text \<open>
  C8. With the viewer modal open, each of the three ways of closing it (the close
  button, the Escape key, a click on the modal's backdrop) sets the selected text to the
  empty string, the document handle to \<open>null\<close>, and the document URL and name to empty
  strings, and hides the modal.
\<close>

theorem closing_clears_selection_and_document:
  assumes "document s SnippetModal = Some m" and "\<not> hidden m" and "present s ModalClose"
  shows "selectedText (close_step s a) = [] \<and> pdfDoc (close_step s a) = None
       \<and> currentPdfUrl (close_step s a) = [] \<and> currentDocumentName (close_step s a) = []
       \<and> map_option hidden (document (close_step s a) SnippetModal) = Some True"
  using assms by (simp add: close_step_open [OF assms] closeModal_fields)

theorem closing_clears_selection_and_document_witness:
  "document viewing SnippetModal = Some (new_elem [] []) \<and> \<not> hidden (new_elem [] [])
   \<and> present viewing ModalClose
   \<and> selectedText viewing = js ''Admission rules'' \<and> pdfDoc viewing = Some sample_document
   \<and> selectedText (close_step viewing EscapeKey) = []
   \<and> pdfDoc (close_step viewing EscapeKey) = None
   \<and> currentPdfUrl (close_step viewing EscapeKey) = []
   \<and> currentDocumentName (close_step viewing EscapeKey) = []"
  using closing_clears_selection_and_document [OF viewing_open, of EscapeKey] viewing_open
  by (simp add: viewing_fields)

text \<open>
  C7, as amended. Closing the viewer resets four components of the PDF session state:
  the selected text, the document handle, the document URL and the document name. The
  page number, the zoom scale, the rendering flag and the pending page are left as they
  are.
\<close>

theorem closing_resets_four_fields_only:
  assumes "document s SnippetModal = Some m" and "\<not> hidden m" and "present s ModalClose"
  shows "close_step s a =
           (upd_elem SnippetModal (\<lambda>e. e\<lparr>hidden := True\<rparr>) s)
             \<lparr>selectedText := [], pdfDoc := None, currentPdfUrl := [], currentDocumentName := []\<rparr>
       \<and> pageNum (close_step s a) = pageNum s \<and> scale (close_step s a) = scale s
       \<and> pageRendering (close_step s a) = pageRendering s
       \<and> pageNumPending (close_step s a) = pageNumPending s"
  by (simp add: close_step_open [OF assms] closeModal_fields) (simp add: closeModal_def cleanupModal_def)

theorem closing_resets_four_fields_only_witness:
  "document viewing SnippetModal = Some (new_elem [] []) \<and> \<not> hidden (new_elem [] [])
   \<and> present viewing ModalClose
   \<and> pdfDoc (close_step viewing BackdropClick) = None
   \<and> pageNum (close_step viewing BackdropClick) = 2
   \<and> scale (close_step viewing BackdropClick) = 5 / 4
   \<and> pageRendering (close_step viewing BackdropClick)
   \<and> pageNumPending (close_step viewing BackdropClick) = Some 2"
proof -
  note inst = closing_resets_four_fields_only [OF viewing_open, of BackdropClick]
  from inst have "pdfDoc (close_step viewing BackdropClick) = None"
    by simp
  with inst viewing_open show ?thesis
    by (simp add: viewing_fields)
qed

text \<open>
  C7 as stated fails: closing the viewer on page 2 at 125 %, with a render in flight and a
  page pending, leaves all four of these as they are, not at their initial values.
\<close>

theorem closing_keeps_page_and_zoom_counterexample:
  "\<not> (pageNum (close_step viewing CloseButton) = pageNum (constructor page)
      \<and> scale (close_step viewing CloseButton) = scale (constructor page)
      \<and> pageRendering (close_step viewing CloseButton) = pageRendering (constructor page)
      \<and> pageNumPending (close_step viewing CloseButton) = pageNumPending (constructor page))"
proof -
  have e: "close_step viewing CloseButton = closeModal viewing"
    by (rule close_step_open [OF viewing_open])
  show ?thesis
    unfolding e by (simp add: closeModal_fields viewing_fields constructor_def)
qed

text \<open>
  C4 as stated fails once the viewer has been closed while a render is in flight: closing
  drops the document handle and leaves the flag set. A request for page 3 is recorded as
  pending, but when the render in flight finishes, page 3 is not rendered: \<open>getPage\<close> is
  not called, the calls made are still those of pages 1 and 2, and the flag ends cleared.
\<close>

lemma closed_viewing:
  "close_step viewing CloseButton = closeModal viewing"
  "pageRendering (closeModal viewing)" "pdfDoc (closeModal viewing) = None"
  "getPageCalls (closeModal viewing) = [1, 2]"
  by (rule close_step_open [OF viewing_open])
    (simp_all add: closeModal_def cleanupModal_def viewing_fields)

theorem render_after_close_counterexample:
  "pageRendering (close_step viewing CloseButton)
   \<and> pageNumPending (renderPageAccurately 3 (close_step viewing CloseButton)) = Some 3
   \<and> getPageCalls (renderPageAccurately_rendered 2
        (renderPageAccurately 3 (close_step viewing CloseButton))) = [1, 2]
   \<and> \<not> pageRendering (renderPageAccurately_rendered 2
        (renderPageAccurately 3 (close_step viewing CloseButton)))"
proof -
  let ?c = "closeModal viewing"
  have req: "renderPageAccurately 3 ?c = ?c\<lparr>pageNumPending := Some 3\<rparr>"
    using closed_viewing(2) by (rule renderPageAccurately_in_flight)
  have start: "renderPageAccurately 3 (?c\<lparr>pageNumPending := Some 3, pageRendering := False\<rparr>)
      = renderPage_catch TypeError (?c\<lparr>pageNumPending := Some 3, pageRendering := True\<rparr>)"
    by (simp add: renderPageAccurately_def closed_viewing(3))
  have fin: "getPageCalls (renderPageAccurately_rendered 2 (?c\<lparr>pageNumPending := Some 3\<rparr>)) = [1, 2]
      \<and> \<not> pageRendering (renderPageAccurately_rendered 2 (?c\<lparr>pageNumPending := Some 3\<rparr>))"
    by (simp add: renderPageAccurately_rendered_def start renderPage_catch_def showAlert_def
          Let_def closed_viewing(3,4))
  show ?thesis
    unfolding closed_viewing(1) req using fin closed_viewing(2) by simp
qed

subsection \<open>Text selection\<close>

text \<open>
  C9. The fixed minimal length is 5. When the debounced selection handler runs (on a
  page that has the selection box and the selection display, which the viewer's template
  creates together with the page container): if the trimmed selection is longer than 5
  code units it becomes \<open>selectedText\<close>, is written into the selection box, and the
  selection display is shown; if it is not longer than 5, \<open>selectedText\<close> is emptied and
  the selection display is hidden.
\<close>

theorem selection_threshold:
  assumes "present s SelectedTextBox" and "present s TextSelectionDisplay"
  shows "(length (trim (windowSelection s)) > 5 \<longrightarrow>
            selectedText (handleSelection_timeout s) = trim (windowSelection s)
            \<and> map_option innerHTML (document (handleSelection_timeout s) SelectedTextBox)
                = Some (trim (windowSelection s))
            \<and> map_option display (document (handleSelection_timeout s) TextSelectionDisplay)
                = Some (js ''block''))
       \<and> (length (trim (windowSelection s)) \<le> 5 \<longrightarrow>
            selectedText (handleSelection_timeout s) = []
            \<and> map_option display (document (handleSelection_timeout s) TextSelectionDisplay)
                = Some (js ''none''))"
  using assms
  by (auto simp: handleSelection_timeout_def clearPDFSelection_def Let_def present_def)

theorem selection_threshold_witness:
  "present viewing SelectedTextBox \<and> present viewing TextSelectionDisplay
   \<and> length (trim (windowSelection viewing)) = 15
   \<and> selectedText (handleSelection_timeout viewing) = js ''Admission rules''
   \<and> map_option innerHTML (document (handleSelection_timeout viewing) SelectedTextBox)
       = Some (js ''Admission rules'')
   \<and> map_option display (document (handleSelection_timeout viewing) TextSelectionDisplay)
       = Some (js ''block'')
   \<and> length (trim (windowSelection (viewing\<lparr>windowSelection := js '' rules ''\<rparr>))) = 5
   \<and> selectedText (handleSelection_timeout (viewing\<lparr>windowSelection := js '' rules ''\<rparr>)) = []
   \<and> map_option display
        (document (handleSelection_timeout (viewing\<lparr>windowSelection := js '' rules ''\<rparr>))
           TextSelectionDisplay) = Some (js ''none'')"
proof -
  let ?u = "viewing\<lparr>windowSelection := js '' rules ''\<rparr>"
  have p: "present viewing SelectedTextBox" "present viewing TextSelectionDisplay"
    by (simp_all add: present_page viewing_fields)
  have q: "present ?u SelectedTextBox" "present ?u TextSelectionDisplay"
    by (simp_all add: present_page viewing_fields)
  have l: "length (trim (windowSelection viewing)) = 15"
    by (simp add: trim_viewing js_def)
  have m: "length (trim (windowSelection ?u)) = 5"
    by (simp add: trim_def js_def is_space_def)
  from selection_threshold [OF p] selection_threshold [OF q] p l m show ?thesis
    by (simp add: trim_viewing)
qed

subsection \<open>Source cards\<close>

text \<open>
  For a response that has an \<open>answer\<close>, on a page with \<open>#documentsContainer\<close> and
  \<open>#docsCard\<close>: \<open>displayResults\<close> builds one card per entry of a non-empty \<open>sources\<close>, in
  order, each with the percentage \<open>Math.round(relevance * 100)\<close> of its entry.
\<close>

lemma foldl_appendCard_cards: "cards (foldl appendCard s srcs) = cards s @ map make_card srcs"
  by (induction srcs arbitrary: s) (simp_all add: appendCard_def)

lemma displaySources_cards:
  assumes "sources data = Some srcs" and "srcs \<noteq> []"
    and "present s DocumentsContainer" and "present s DocsCard"
  shows "cards (displaySources data s) = map make_card srcs"
  using assms by (simp add: displaySources_def foldl_appendCard_cards)

lemma displayAnswer_present:
  "displayAnswer fmt data s = Inr s' \<Longrightarrow> present s' i = present s i"
  by (auto simp: displayAnswer_def Let_def split: if_splits option.splits)

lemma displayAnswer_with_answer:
  "answer data = Some a \<Longrightarrow> \<exists>s'. displayAnswer fmt data s = Inr s'"
  by (simp add: displayAnswer_def Let_def)

lemma displayResults_source_cards:
  assumes "answer data = Some a" and "sources data = Some srcs" and "srcs \<noteq> []"
    and "present s DocumentsContainer" and "present s DocsCard"
  shows "\<exists>s'. displayResults fmt data s = Inr s' \<and> cards s' = map make_card srcs
           \<and> length (cards s') = length srcs
           \<and> (\<forall>i < length srcs.
                 card_relevancePercent (cards s' ! i) = Math_round (relevance (srcs ! i) * 100))"
proof -
  let ?s0 = "upd_elem ResultsSection (\<lambda>e. e\<lparr>hidden := False\<rparr>) s"
  from displayAnswer_with_answer [OF assms(1)]
  obtain s1 where s1: "displayAnswer fmt data ?s0 = Inr s1" by blast
  have p: "present s1 DocumentsContainer" "present s1 DocsCard"
    using displayAnswer_present [OF s1] assms(4,5) by simp_all
  have c: "cards (displaySources data s1) = map make_card srcs"
    using assms(2,3) p by (rule displaySources_cards)
  have r: "displayResults fmt data s = Inr (displaySources data s1)"
    by (simp add: displayResults_def s1)
  show ?thesis
    unfolding r using c by (simp add: make_card_def)
qed

text \<open>
  C1 fails for a successful response that has sources but no \<open>answer\<close>. \<open>displayResults\<close>
  writes the fallback text "No answer available." and then calls \<open>data.answer.includes\<close>,
  which throws; \<open>processQuery\<close> catches the error, so no source card is built and the
  user sees an error notice.
\<close>

theorem displayResults_without_answer:
  "displayResults fmt no_answer_response (constructor page)
     = Inl (TypeError,
            upd_elem AnswerContent (\<lambda>e. e\<lparr>innerHTML := fmt (js ''No answer available.'')\<rparr>)
              (upd_elem ResultsSection (\<lambda>e. e\<lparr>hidden := False\<rparr>) (constructor page)))
   \<and> cards (processQuery_settled fmt orig t (Response True no_answer_response) (constructor page)) = []
   \<and> toasts (processQuery_settled fmt orig t (Response True no_answer_response) (constructor page))
       = [(js ''Error: '' @ message TypeError, ErrorT)]"
proof -
  let ?s = "constructor page"
  let ?r = "?s\<lparr>currentResult := Some no_answer_response\<rparr>"
  have p: "present s i" if "document s = page" for s i
    using that by (rule present_page)
  have d: "document ?s = page" "document ?r = page"
    by (simp_all add: constructor_def)
  have n: "answer no_answer_response = None"
    by (simp add: no_answer_response_def)
  have a: "displayAnswer fmt no_answer_response (upd_elem ResultsSection (\<lambda>e. e\<lparr>hidden := False\<rparr>) u)
      = Inl (TypeError,
             upd_elem AnswerContent (\<lambda>e. e\<lparr>innerHTML := fmt (js ''No answer available.'')\<rparr>)
               (upd_elem ResultsSection (\<lambda>e. e\<lparr>hidden := False\<rparr>) u))"
    if "document u = page" for u
    using that by (simp add: displayAnswer_def n p)
  have r: "displayResults fmt no_answer_response u
      = Inl (TypeError,
             upd_elem AnswerContent (\<lambda>e. e\<lparr>innerHTML := fmt (js ''No answer available.'')\<rparr>)
               (upd_elem ResultsSection (\<lambda>e. e\<lparr>hidden := False\<rparr>) u))"
    if "document u = page" for u
    using that by (simp add: displayResults_def a)
  have t: "processQuery_try fmt t (Response True no_answer_response) ?s
      = Inl (TypeError,
             upd_elem AnswerContent (\<lambda>e. e\<lparr>innerHTML := fmt (js ''No answer available.'')\<rparr>)
               (upd_elem ResultsSection (\<lambda>e. e\<lparr>hidden := False\<rparr>) ?r))"
    by (simp add: processQuery_try_def r [OF d(2)])
  have c: "cards (processQuery_settled fmt orig t (Response True no_answer_response) ?s) = []
      \<and> toasts (processQuery_settled fmt orig t (Response True no_answer_response) ?s)
          = [(js ''Error: '' @ message TypeError, ErrorT)]"
    unfolding processQuery_settled_def t
    by (simp add: showAlert_def hideLoading_def p constructor_def)
  from r [OF d(1)] c show ?thesis
    by simp
qed

text \<open>The same response with an answer added gets its card.\<close>

lemma displayResults_with_answer:
  "\<exists>s'. displayResults fmt (no_answer_response\<lparr>answer := Some a\<rparr>) (constructor page) = Inr s'
        \<and> cards s' = [make_card sample_source]"
proof -
  have "\<exists>s'. displayResults fmt (no_answer_response\<lparr>answer := Some a\<rparr>) (constructor page) = Inr s'
      \<and> cards s' = map make_card [sample_source]
      \<and> length (cards s') = length [sample_source]
      \<and> (\<forall>i < length [sample_source].
            card_relevancePercent (cards s' ! i) = Math_round (relevance ([sample_source] ! i) * 100))"
    by (rule displayResults_source_cards)
      (simp_all add: no_answer_response_def present_page constructor_def)
  then show ?thesis by auto
qed

end
